theory Spec2Isabelle
  imports Main "HOL-Library.AList"
begin

section \<open>JavaScript values\<close>

text \<open>
  The records of the mock store, the request bodies and the response bodies are JSON
  values. An object is the list of its properties in insertion order; reading a property
  that is absent gives \<open>undefined\<close>, which is \<open>None\<close> here. Numbers are integers, the
  only numbers the code computes with (a page, a count, a length, a status, an id).
\<close>

datatype json =
    JNull
  | JBool bool
  | JNum int
  | JStr string
  | JArr "json list"
  | JObj "(string \<times> json) list"

fun get_prop :: "json \<Rightarrow> string \<Rightarrow> json option" where
  "get_prop (JObj kvs) k = map_of kvs k"
| "get_prop _ k = None"

text \<open>Truthiness, as \<open>if (x)\<close>, \<open>!x\<close> and \<open>x || y\<close> read it.\<close>

fun truthy :: "json \<Rightarrow> bool" where
  "truthy JNull = False"
| "truthy (JBool b) = b"
| "truthy (JNum n) = (n \<noteq> 0)"
| "truthy (JStr s) = (s \<noteq> [])"
| "truthy (JArr xs) = True"
| "truthy (JObj kvs) = True"

text \<open>
  \<open>Object.assign(target, source)\<close> (lodash's \<open>assign\<close> is the same on plain objects):
  every property of the source is written to the target, in the source's order; a key
  the target has keeps its position, a new key is appended.
\<close>

definition assign :: "json \<Rightarrow> (string \<times> json) list \<Rightarrow> json" where
  "assign target source =
     (case target of
        JObj kvs \<Rightarrow> JObj (foldl (\<lambda>al (k, v). AList.update k v al) kvs source)
      | _ \<Rightarrow> target)"

section \<open>HTTP messages\<close>

text \<open>
  A response as the client code reads it: the status, the \<open>X-Total-Count\<close> header
  (\<open>None\<close> when the header is absent) and the body (\<open>None\<close> when there is no body that
  parses as JSON, so that \<open>response.json()\<close> rejects).
\<close>

record response =
  status :: nat
  x_total_count :: "string option"
  body :: "json option"

section \<open>server.js: the soft-delete route\<close>

text \<open>
  \<open>db.get('clients').find({ id: clientId })\<close>: the first element of the collection whose
  \<open>id\<close> property equals the route parameter, which is a string.
\<close>

definition matches_id :: "string \<Rightarrow> json \<Rightarrow> bool" where
  "matches_id clientId c = (get_prop c ''id'' = Some (JStr clientId))"

definition find_client :: "json list \<Rightarrow> string \<Rightarrow> json option" where
  "find_client clients clientId = List.find (matches_id clientId) clients"

text \<open>\<open>.find(...).assign(source).write()\<close>: the first match is updated in place.\<close>

fun assign_first :: "string \<Rightarrow> (string \<times> json) list \<Rightarrow> json list \<Rightarrow> json list" where
  "assign_first clientId source [] = []"
| "assign_first clientId source (c # cs) =
     (if matches_id clientId c then assign c source # cs
      else c # assign_first clientId source cs)"

text \<open>
  The handler of \<open>DELETE /api/v1/clients/:id\<close>. \<open>now\<close> is the value of
  \<open>new Date().toISOString()\<close> when the handler runs. The result is the response and the
  collection as written back to \<open>db.json\<close>.
\<close>

definition delete_client_route :: "string \<Rightarrow> string \<Rightarrow> json list \<Rightarrow> response \<times> json list" where
  "delete_client_route now clientId clients =
     (case find_client clients clientId of
        Some client \<Rightarrow>
          (\<lparr>status = 204, x_total_count = None, body = None\<rparr>,
           assign_first clientId
             [(''status_code'', JStr ''deleted''), (''deleted_at'', JStr now)] clients)
      | None \<Rightarrow>
          (\<lparr>status = 404, x_total_count = None,
            body = Some (JObj [(''error'', JStr ''CLIENT_NOT_FOUND'')])\<rparr>,
           clients))"

section \<open>services/api.js\<close>

datatype http_method = GET | POST | PATCH | DELETE

text \<open>
  A request as \<open>fetch\<close> receives it: the method, the URL up to the query, the query
  (the name-value pairs of a \<open>URLSearchParams\<close>) and the JSON body, if any.
\<close>

record request =
  req_method :: http_method
  req_url :: string
  req_query :: "(string \<times> string) list"
  req_body :: "json option"

text \<open>
  \<open>fetch\<close> either rejects (the server cannot be reached) or resolves to a response. It
  is a parameter of every function below, acting on the state \<open>'w\<close> of the world behind
  it.
\<close>

datatype fetch_result = Rejects | Resolves response

type_synonym 'w fetch = "request \<Rightarrow> 'w \<Rightarrow> fetch_result \<times> 'w"

text \<open>
  What a function of \<open>api.js\<close> can throw: the rejection of \<open>fetch\<close>, the rejection of
  \<open>response.json()\<close>, a \<open>TypeError\<close> on reading a property of \<open>null\<close> or calling what
  is not a function, and the \<open>Error\<close> it builds itself from the status and, in some
  functions, from a message taken from the body.
\<close>

datatype exn =
    FetchRejected
  | JsonRejected
  | TypeError
  | HttpError nat "json option"

definition API_BASE_URL :: string where
  "API_BASE_URL = ''http://localhost:3001/api/v1''"

definition ok :: "response \<Rightarrow> bool" where
  "ok r = (200 \<le> status r \<and> status r \<le> 299)"

subsection \<open>Numbers and strings\<close>

definition digit_char :: "nat \<Rightarrow> char" where
  "digit_char n = ''0123456789'' ! n"

function string_of_nat :: "nat \<Rightarrow> string" where
  "string_of_nat n =
     (if n < 10 then [digit_char n] else string_of_nat (n div 10) @ [digit_char (n mod 10)])"
  by pat_completeness auto
termination
  by (relation "measure (\<lambda>n. n)") auto

declare string_of_nat.simps [simp del]

definition string_of_int :: "int \<Rightarrow> string" where
  "string_of_int i = (if i < 0 then CHR ''-'' # string_of_nat (nat (- i)) else string_of_nat (nat i))"

text \<open>A parameter of a list request is a number or a string; \<open>URLSearchParams\<close> stores its string.\<close>

datatype param_value = PNum int | PStr string

fun param_string :: "param_value \<Rightarrow> string" where
  "param_string (PNum i) = string_of_int i"
| "param_string (PStr s) = s"

definition URLSearchParams :: "(string \<times> param_value) list \<Rightarrow> (string \<times> string) list" where
  "URLSearchParams params = map (\<lambda>(k, v). (k, param_string v)) params"

text \<open>
  \<open>parseInt(s, 10)\<close>: leading white space is skipped, a sign is read, then the longest
  run of decimal digits; with no digit the result is \<open>NaN\<close>, which is \<open>None\<close> here. An
  absent header is \<open>null\<close>, which \<open>parseInt\<close> reads as the string \<open>null\<close>. The value
  is exact here, where JavaScript rounds a run of more than fifteen digits.
\<close>

definition is_js_space :: "char \<Rightarrow> bool" where
  "is_js_space c = (c \<in> set [CHR 0x09, CHR 0x0A, CHR 0x0B, CHR 0x0C, CHR 0x0D, CHR 0x20, CHR 0xA0])"

definition is_digit :: "char \<Rightarrow> bool" where
  "is_digit c = (c \<in> set ''0123456789'')"

definition digit_value :: "char \<Rightarrow> nat" where
  "digit_value c = (of_char c :: nat) - 48"

definition parseInt10 :: "string option \<Rightarrow> int option" where
  "parseInt10 h =
     (let s = (case h of None \<Rightarrow> ''null'' | Some x \<Rightarrow> x);
          t = dropWhile is_js_space s;
          neg = (t \<noteq> [] \<and> hd t = CHR ''-'');
          u = (if t \<noteq> [] \<and> (hd t = CHR ''-'' \<or> hd t = CHR ''+'') then tl t else t);
          ds = takeWhile is_digit u
      in if ds = [] then None
         else Some ((if neg then - 1 else 1) * int (foldl (\<lambda>a c. 10 * a + digit_value c) 0 ds)))"

text \<open>
  \<open>data.length\<close>: reading it on \<open>null\<close> throws; an array has its length, a string its
  length (counted here in bytes, which is the count of UTF-16 units for ASCII text), an
  object its own property of that name, anything else none.
\<close>

fun js_length :: "json \<Rightarrow> exn + json option" where
  "js_length JNull = Inl TypeError"
| "js_length (JArr xs) = Inr (Some (JNum (int (length xs))))"
| "js_length (JStr s) = Inr (Some (JNum (int (length s))))"
| "js_length (JObj kvs) = Inr (map_of kvs ''length'')"
| "js_length _ = Inr None"

subsection \<open>getClients\<close>

record client_page =
  data :: json
  totalCount :: "json option"

definition empty_page :: client_page where
  "empty_page = \<lparr>data = JArr [], totalCount = Some (JNum 0)\<rparr>"

definition getClients_request :: "(string \<times> param_value) list \<Rightarrow> request" where
  "getClients_request params =
     \<lparr>req_method = GET, req_url = API_BASE_URL @ ''/clients'',
      req_query = URLSearchParams params, req_body = None\<rparr>"

text \<open>
  Every failure inside the \<open>try\<close> block (the rejection of \<open>fetch\<close>, a response that is
  not OK, a body that does not parse, \<open>null.length\<close>) ends in the \<open>catch\<close> block, which
  logs it and returns \<open>{ data: [], totalCount: 0 }\<close>.
\<close>

definition getClients :: "'w fetch \<Rightarrow> (string \<times> param_value) list \<Rightarrow> 'w \<Rightarrow> client_page \<times> 'w" where
  "getClients fetch params w =
     (case fetch (getClients_request params) w of
        (Rejects, w') \<Rightarrow> (empty_page, w')
      | (Resolves response, w') \<Rightarrow>
          if \<not> ok response then (empty_page, w')
          else (case body response of
                  None \<Rightarrow> (empty_page, w')
                | Some d \<Rightarrow>
                    (case parseInt10 (x_total_count response) of
                       Some n \<Rightarrow>
                         if n \<noteq> 0 then (\<lparr>data = d, totalCount = Some (JNum n)\<rparr>, w')
                         else (case js_length d of
                                 Inl e \<Rightarrow> (empty_page, w')
                               | Inr l \<Rightarrow> (\<lparr>data = d, totalCount = l\<rparr>, w'))
                     | None \<Rightarrow>
                         (case js_length d of
                            Inl e \<Rightarrow> (empty_page, w')
                          | Inr l \<Rightarrow> (\<lparr>data = d, totalCount = l\<rparr>, w')))))"

subsection \<open>getReferenceData\<close>

definition getReferenceData_request :: request where
  "getReferenceData_request =
     \<lparr>req_method = GET, req_url = API_BASE_URL @ ''/reference-data/'',
      req_query = [], req_body = None\<rparr>"

text \<open>The \<open>catch\<close> block logs the failure and returns \<open>null\<close>.\<close>

definition getReferenceData :: "'w fetch \<Rightarrow> 'w \<Rightarrow> json \<times> 'w" where
  "getReferenceData fetch w =
     (case fetch getReferenceData_request w of
        (Rejects, w') \<Rightarrow> (JNull, w')
      | (Resolves response, w') \<Rightarrow>
          if \<not> ok response then (JNull, w')
          else (case body response of None \<Rightarrow> (JNull, w') | Some j \<Rightarrow> (j, w')))"

subsection \<open>getClientById\<close>

definition getClientById_request :: "string \<Rightarrow> request" where
  "getClientById_request cid =
     \<lparr>req_method = GET, req_url = API_BASE_URL @ ''/clients/'' @ cid,
      req_query = [], req_body = None\<rparr>"

text \<open>A 404 is \<open>null\<close>; every other failure is thrown again by the \<open>catch\<close> block.\<close>

definition getClientById :: "'w fetch \<Rightarrow> string \<Rightarrow> 'w \<Rightarrow> (exn + json) \<times> 'w" where
  "getClientById fetch cid w =
     (case fetch (getClientById_request cid) w of
        (Rejects, w') \<Rightarrow> (Inl FetchRejected, w')
      | (Resolves response, w') \<Rightarrow>
          if \<not> ok response then
            (if status response = 404 then (Inr JNull, w')
             else (Inl (HttpError (status response) None), w'))
          else (case body response of
                  None \<Rightarrow> (Inl JsonRejected, w')
                | Some j \<Rightarrow> (Inr j, w')))"

subsection \<open>createClient and updateClient\<close>

text \<open>
  \<open>errorBody.error?.message || 'Unknown error'\<close>: reading \<open>error\<close> on \<open>null\<close> throws; an
  \<open>error\<close> that is absent or \<open>null\<close>, or whose \<open>message\<close> is absent or falsy, gives the
  default text.
\<close>

definition error_message :: "json \<Rightarrow> exn + json" where
  "error_message errorBody =
     (if errorBody = JNull then Inl TypeError
      else (case get_prop errorBody ''error'' of
              None \<Rightarrow> Inr (JStr ''Unknown error'')
            | Some e \<Rightarrow>
                (case get_prop e ''message'' of
                   None \<Rightarrow> Inr (JStr ''Unknown error'')
                 | Some m \<Rightarrow> if truthy m then Inr m else Inr (JStr ''Unknown error''))))"

text \<open>What both functions do with the outcome of their \<open>fetch\<close>.\<close>

definition save_result :: "fetch_result \<Rightarrow> exn + json" where
  "save_result r =
     (case r of
        Rejects \<Rightarrow> Inl FetchRejected
      | Resolves response \<Rightarrow>
          if \<not> ok response then
            (case body response of
               None \<Rightarrow> Inl JsonRejected
             | Some errorBody \<Rightarrow>
                 (case error_message errorBody of
                    Inl e \<Rightarrow> Inl e
                  | Inr m \<Rightarrow> Inl (HttpError (status response) (Some m))))
          else (case body response of
                  None \<Rightarrow> Inl JsonRejected
                | Some j \<Rightarrow> Inr j))"

definition createClient_request :: "json \<Rightarrow> request" where
  "createClient_request clientData =
     \<lparr>req_method = POST, req_url = API_BASE_URL @ ''/clients'',
      req_query = [], req_body = Some clientData\<rparr>"

definition createClient :: "'w fetch \<Rightarrow> json \<Rightarrow> 'w \<Rightarrow> (exn + json) \<times> 'w" where
  "createClient fetch clientData w =
     (case fetch (createClient_request clientData) w of (r, w') \<Rightarrow> (save_result r, w'))"

definition updateClient_request :: "string \<Rightarrow> json \<Rightarrow> request" where
  "updateClient_request cid clientData =
     \<lparr>req_method = PATCH, req_url = API_BASE_URL @ ''/clients/'' @ cid,
      req_query = [], req_body = Some clientData\<rparr>"

definition updateClient :: "'w fetch \<Rightarrow> string \<Rightarrow> json \<Rightarrow> 'w \<Rightarrow> (exn + json) \<times> 'w" where
  "updateClient fetch cid clientData w =
     (case fetch (updateClient_request cid clientData) w of (r, w') \<Rightarrow> (save_result r, w'))"

section \<open>pages/ClientFormPage.js\<close>

text \<open>
  The state of the form. A field typed by the user holds a string and the checkbox a
  boolean; in edit mode the fields are loaded from the stored record and hold whatever
  JSON value it has.
\<close>

record formData =
  first_name :: json
  last_name :: json
  date_of_birth :: json
  email :: json
  phone :: json
  status_code :: json
  primary_language_code :: json
  pronoun_code :: json
  sex :: json
  interpreter_needed :: json

definition initialFormState :: formData where
  "initialFormState =
     \<lparr>first_name = JStr [], last_name = JStr [], date_of_birth = JStr [],
      email = JStr [], phone = JStr [], status_code = JStr [],
      primary_language_code = JStr [], pronoun_code = JStr [], sex = JStr [],
      interpreter_needed = JBool False\<rparr>"

text \<open>The properties that \<open>...formData\<close> spreads, in the order of \<open>initialFormState\<close>.\<close>

definition form_entries :: "formData \<Rightarrow> (string \<times> json) list" where
  "form_entries f =
     [(''first_name'', first_name f), (''last_name'', last_name f),
      (''date_of_birth'', date_of_birth f), (''email'', email f), (''phone'', phone f),
      (''status_code'', status_code f),
      (''primary_language_code'', primary_language_code f),
      (''pronoun_code'', pronoun_code f), (''sex'', sex f),
      (''interpreter_needed'', interpreter_needed f)]"

text \<open>The only check \<open>handleSubmit\<close> makes before it sends the form.\<close>

definition required_missing :: "formData \<Rightarrow> bool" where
  "required_missing f =
     (\<not> truthy (first_name f) \<or> \<not> truthy (last_name f) \<or>
      \<not> truthy (date_of_birth f) \<or> \<not> truthy (status_code f))"

definition required_message :: string where
  "required_message = ''Required fields are missing (First Name, Last Name, DOB, Status).''"

text \<open>
  \<open>submissionData\<close>. Each \<open>new Date().toISOString()\<close> is a reading of the clock: edit
  mode reads it once (\<open>t1\<close>), create mode twice, first for \<open>created_at\<close> (\<open>t1\<close>) and then
  for \<open>updated_at\<close> (\<open>t2\<close>).
\<close>

definition submissionData :: "bool \<Rightarrow> string \<Rightarrow> string \<Rightarrow> formData \<Rightarrow> json" where
  "submissionData isEditMode t1 t2 f =
     assign (JObj (form_entries f))
       (if isEditMode then [(''updated_at'', JStr t1)]
        else [(''created_at'', JStr t1), (''updated_at'', JStr t2)])"

text \<open>
  What \<open>handleSubmit\<close> leaves on the page: the message of the required-fields check
  (nothing is sent), the error caught from the request, or the record the server
  answered with (followed by the alert and the navigation).
\<close>

datatype submit_outcome =
    FormError string
  | SaveFailed exn
  | Updated json
  | Created json

definition handleSubmit ::
  "'w fetch \<Rightarrow> bool \<Rightarrow> string \<Rightarrow> string \<Rightarrow> string \<Rightarrow> formData \<Rightarrow> 'w \<Rightarrow> submit_outcome \<times> 'w" where
  "handleSubmit fetch isEditMode cid t1 t2 f w =
     (if required_missing f then (FormError required_message, w)
      else if isEditMode then
        (case updateClient fetch cid (submissionData isEditMode t1 t2 f) w of
           (Inl e, w') \<Rightarrow> (SaveFailed e, w')
         | (Inr r, w') \<Rightarrow> (Updated r, w'))
      else
        (case createClient fetch (submissionData isEditMode t1 t2 f) w of
           (Inl e, w') \<Rightarrow> (SaveFailed e, w')
         | (Inr r, w') \<Rightarrow>
             if r = JNull then (SaveFailed TypeError, w') else (Created r, w')))"

text \<open>The create input of the example scenario of the specification.\<close>

definition john_doe :: formData where
  "john_doe =
     \<lparr>first_name = JStr ''John'', last_name = JStr ''Doe'',
      date_of_birth = JStr ''1990-03-15'', email = JStr ''john.doe@example.com'',
      phone = JStr [], status_code = JStr ''active'',
      primary_language_code = JStr [], pronoun_code = JStr [], sex = JStr [],
      interpreter_needed = JBool False\<rparr>"

section \<open>pages/ClientListPage.js\<close>

definition ITEMS_PER_PAGE :: int where
  "ITEMS_PER_PAGE = 2"

text \<open>The parameters \<open>fetchClientData\<close> builds from the page number and the status filter.\<close>

definition list_params :: "int \<Rightarrow> string \<Rightarrow> (string \<times> param_value) list" where
  "list_params currentPage statusFilter =
     [(''_page'', PNum currentPage), (''_limit'', PNum ITEMS_PER_PAGE)] @
     (if statusFilter \<noteq> [] then [(''status_code'', PStr statusFilter)] else [])"

text \<open>
  The state \<open>fetchClientData\<close> sets: the clients, their total and the error message. The
  error is cleared first; the \<open>catch\<close> block that would set it runs only if \<open>getClients\<close>
  throws.
\<close>

record list_state =
  shown_clients :: json
  totalClients :: "json option"
  list_error :: "string option"

definition fetchClientData :: "'w fetch \<Rightarrow> int \<Rightarrow> string \<Rightarrow> 'w \<Rightarrow> list_state \<times> 'w" where
  "fetchClientData fetch currentPage statusFilter w =
     (case getClients fetch (list_params currentPage statusFilter) w of
        (page, w') \<Rightarrow>
          (\<lparr>shown_clients = data page, totalClients = totalCount page, list_error = None\<rparr>, w'))"

section \<open>pages/ClientDetailPage.js\<close>

datatype ref_kind = ClientStatuses | Languages | Pronouns | SexValues

fun kind_key :: "ref_kind \<Rightarrow> string" where
  "kind_key ClientStatuses = ''client_statuses''"
| "kind_key Languages = ''languages''"
| "kind_key Pronouns = ''pronouns''"
| "kind_key SexValues = ''sex_values''"

text \<open>
  \<open>a === b\<close> on values read from two JSON documents: \<open>undefined\<close> equals \<open>undefined\<close>,
  primitives are compared by value, and an array or an object is never equal to one
  parsed elsewhere.
\<close>

fun primitive :: "json \<Rightarrow> bool" where
  "primitive (JArr xs) = False"
| "primitive (JObj kvs) = False"
| "primitive _ = True"

fun strict_eq :: "json option \<Rightarrow> json option \<Rightarrow> bool" where
  "strict_eq None None = True"
| "strict_eq (Some a) (Some b) = (primitive a \<and> a = b)"
| "strict_eq _ _ = False"

text \<open>
  \<open>items.find(i => i.code === code)\<close>: the first item whose \<open>code\<close> is the code;
  reading \<open>code\<close> on a \<open>null\<close> item throws.
\<close>

fun find_code :: "json option \<Rightarrow> json list \<Rightarrow> exn + json option" where
  "find_code code [] = Inr None"
| "find_code code (i # items) =
     (if i = JNull then Inl TypeError
      else if strict_eq (get_prop i ''code'') code then Inr (Some i)
      else find_code code items)"

text \<open>
  \<open>getDisplayName(type, code)\<close>, with the reference data of the page's state as a
  parameter (\<open>null\<close> until loaded, and when loading failed). The code is a property of
  the client, so it may be \<open>undefined\<close>. Calling \<open>find\<close> on a value that is not an array
  throws.
\<close>

definition getDisplayName :: "json \<Rightarrow> ref_kind \<Rightarrow> json option \<Rightarrow> exn + json option" where
  "getDisplayName referenceData kind code =
     (if \<not> truthy referenceData then Inr code
      else (case get_prop referenceData (kind_key kind) of
              None \<Rightarrow> Inr code
            | Some catalog \<Rightarrow>
                if \<not> truthy catalog then Inr code
                else (case catalog of
                        JArr items \<Rightarrow>
                          (case find_code code items of
                             Inl e \<Rightarrow> Inl e
                           | Inr None \<Rightarrow> Inr code
                           | Inr (Some item) \<Rightarrow>
                               if truthy item then
                                 (case get_prop item ''name'' of
                                    None \<Rightarrow> Inr (get_prop item ''display_text'')
                                  | Some n \<Rightarrow>
                                      if truthy n then Inr (Some n)
                                      else Inr (get_prop item ''display_text''))
                               else Inr code)
                      | _ \<Rightarrow> Inl TypeError)))"

section \<open>The resource router behind server.js\<close>

text \<open>
  \<open>server.js\<close> defines the DELETE route itself and hands every other request to the
  router of the \<open>json-server\<close> package, unchanged. Of that router only the create is
  written out. For a POST to the clients collection with a body that has no \<open>id\<close>, as
  the body of the form has none, it stores the body under an id it generates and
  answers 201 with the stored record; it checks nothing else about the body. The id it
  generates is a number: 1 in an empty collection, and one more than the largest id in
  a collection of numbered records. The generated id is a parameter here, and so is the
  answer \<open>other\<close> to every request that is not this POST.
\<close>

definition router_create :: "json list fetch \<Rightarrow> json \<Rightarrow> json list fetch" where
  "router_create other new_id req db =
     (if req_method req = POST \<and> req_url req = API_BASE_URL @ ''/clients'' then
        (let resource = assign (case req_body req of None \<Rightarrow> JObj [] | Some d \<Rightarrow> d)
                               [(''id'', new_id)]
         in (Resolves \<lparr>status = 201, x_total_count = None, body = Some resource\<rparr>,
             db @ [resource]))
      else other req db)"

text \<open>
  A server that cannot be reached: \<open>fetch\<close> rejects and nothing changes. It stands for
  the other routes in the examples below, none of which sends a request to them.
\<close>

definition unreachable :: "'w fetch" where
  "unreachable req w = (Rejects, w)"

section \<open>Properties of the soft-delete route\<close>

lemma get_prop_assign:
  "get_prop (assign (JObj kvs) [(k1, v1), (k2, v2)]) k =
     (if k = k2 then Some v2 else if k = k1 then Some v1 else get_prop (JObj kvs) k)"
  by (simp add: assign_def update_conv')

lemma matches_id_JObj:
  "matches_id clientId c \<Longrightarrow> \<exists>kvs. c = JObj kvs"
  by (cases c) (simp_all add: matches_id_def)

lemma matches_id_assign:
  "matches_id clientId c \<Longrightarrow> k1 \<noteq> ''id'' \<Longrightarrow> k2 \<noteq> ''id'' \<Longrightarrow>
   matches_id clientId (assign c [(k1, v1), (k2, v2)])"
  using matches_id_JObj [of clientId c]
  by (auto simp: matches_id_def get_prop_assign simp del: get_prop.simps)

lemma find_assign_first:
  "find_client clients clientId = Some c \<Longrightarrow> k1 \<noteq> ''id'' \<Longrightarrow> k2 \<noteq> ''id'' \<Longrightarrow>
   find_client (assign_first clientId [(k1, v1), (k2, v2)] clients) clientId =
     Some (assign c [(k1, v1), (k2, v2)])"
  unfolding find_client_def
  by (induction clients) (auto simp: matches_id_assign split: if_splits)

lemma find_client_matches:
  "find_client clients clientId = Some c \<Longrightarrow> matches_id clientId c"
  unfolding find_client_def by (auto simp: find_Some_iff)

text \<open>
  The soft delete of a record that the handler finds. The handler resolves the id by
  comparing the route parameter, a string, with the \<open>id\<close> of each record, so it finds
  a record whose id is stored as that string, and no record whose id is stored as a
  number. When the id resolves to a record, the soft delete answers 204; afterwards the same lookup still finds a record for that id, whose
  \<open>status_code\<close> is the sentinel \<open>deleted\<close>, whose \<open>deleted_at\<close> is the time of the
  call (a string, so neither absent nor null), and whose other properties are those of
  the record before. When the id resolves to no record the answer is 404 and the
  collection is untouched.
\<close>

lemma soft_delete_frame:
  "(find_client clients clientId = Some c \<longrightarrow>
      status (fst (delete_client_route now clientId clients)) = 204 \<and>
      (\<exists>c'. find_client (snd (delete_client_route now clientId clients)) clientId = Some c' \<and>
            get_prop c' ''status_code'' = Some (JStr ''deleted'') \<and>
            get_prop c' ''deleted_at'' = Some (JStr now) \<and>
            get_prop c' ''deleted_at'' \<noteq> None \<and>
            get_prop c' ''deleted_at'' \<noteq> Some JNull \<and>
            (\<forall>k. k \<noteq> ''status_code'' \<and> k \<noteq> ''deleted_at'' \<longrightarrow>
                 get_prop c' k = get_prop c k))) \<and>
   (find_client clients clientId = None \<longrightarrow>
      status (fst (delete_client_route now clientId clients)) = 404 \<and>
      snd (delete_client_route now clientId clients) = clients)"
proof (intro conjI impI)
  assume found: "find_client clients clientId = Some c"
  then show "status (fst (delete_client_route now clientId clients)) = 204"
    by (simp add: delete_client_route_def)
  let ?src = "[(''status_code'', JStr ''deleted''), (''deleted_at'', JStr now)]"
  obtain kvs where c: "c = JObj kvs"
    using matches_id_JObj [OF find_client_matches [OF found]] by blast
  have after: "find_client (snd (delete_client_route now clientId clients)) clientId =
      Some (assign c ?src)"
    using found find_assign_first [OF found, of "''status_code''" "''deleted_at''"]
    by (simp add: delete_client_route_def)
  show "\<exists>c'. find_client (snd (delete_client_route now clientId clients)) clientId = Some c' \<and>
            get_prop c' ''status_code'' = Some (JStr ''deleted'') \<and>
            get_prop c' ''deleted_at'' = Some (JStr now) \<and>
            get_prop c' ''deleted_at'' \<noteq> None \<and>
            get_prop c' ''deleted_at'' \<noteq> Some JNull \<and>
            (\<forall>k. k \<noteq> ''status_code'' \<and> k \<noteq> ''deleted_at'' \<longrightarrow>
                 get_prop c' k = get_prop c k)"
    unfolding after c
    by (simp add: get_prop_assign del: get_prop.simps)
next
  assume "find_client clients clientId = None"
  then show "status (fst (delete_client_route now clientId clients)) = 404"
    and "snd (delete_client_route now clientId clients) = clients"
    by (simp_all add: delete_client_route_def)
qed

lemma soft_delete_frame_example:
  "find_client
     [JObj [(''id'', JStr ''7''), (''first_name'', JStr ''John''), (''status_code'', JStr ''active'')]]
     ''7'' =
   Some (JObj [(''id'', JStr ''7''), (''first_name'', JStr ''John''), (''status_code'', JStr ''active'')]) \<and>
   find_client
     [JObj [(''id'', JStr ''7''), (''first_name'', JStr ''John''), (''status_code'', JStr ''active'')]]
     ''8'' = None \<and>
   status (fst (delete_client_route ''2024-12-15T09:15:30.000Z'' ''7''
     [JObj [(''id'', JStr ''7''), (''first_name'', JStr ''John''), (''status_code'', JStr ''active'')]])) = 204 \<and>
   status (fst (delete_client_route ''2024-12-15T09:15:30.000Z'' ''8''
     [JObj [(''id'', JStr ''7''), (''first_name'', JStr ''John''), (''status_code'', JStr ''active'')]])) = 404"
  using
    soft_delete_frame [of
      "[JObj [(''id'', JStr ''7''), (''first_name'', JStr ''John''), (''status_code'', JStr ''active'')]]"
      "''7''"
      "JObj [(''id'', JStr ''7''), (''first_name'', JStr ''John''), (''status_code'', JStr ''active'')]"
      "''2024-12-15T09:15:30.000Z''"]
    soft_delete_frame [of
      "[JObj [(''id'', JStr ''7''), (''first_name'', JStr ''John''), (''status_code'', JStr ''active'')]]"
      "''8''" JNull "''2024-12-15T09:15:30.000Z''"]
  by (simp add: find_client_def matches_id_def)

subsection \<open>Repeated deletes\<close>

lemma delete_found:
  "find_client clients clientId = Some c \<Longrightarrow>
   delete_client_route now clientId clients =
     (\<lparr>status = 204, x_total_count = None, body = None\<rparr>,
      assign_first clientId
        [(''status_code'', JStr ''deleted''), (''deleted_at'', JStr now)] clients)"
  by (simp add: delete_client_route_def)

lemma delete_not_found:
  "find_client clients clientId = None \<Longrightarrow>
   snd (delete_client_route now clientId clients) = clients"
  by (simp add: delete_client_route_def)

lemma assign_twice:
  "assign (assign (JObj kvs) [(''status_code'', s), (''deleted_at'', JStr t1)])
          [(''status_code'', s), (''deleted_at'', JStr t2)] =
   assign (JObj kvs) [(''status_code'', s), (''deleted_at'', JStr t2)]"
proof -
  let ?a = "AList.update ''deleted_at'' (JStr t1) (AList.update ''status_code'' s kvs)"
  have "map_of ?a ''status_code'' = Some s"
    by (simp add: update_conv')
  then have "AList.update ''status_code'' s ?a = ?a"
    by (rule update_triv)
  then show ?thesis
    by (simp add: assign_def)
qed

lemma assign_first_twice:
  "assign_first clientId [(''status_code'', s), (''deleted_at'', JStr t2)]
     (assign_first clientId [(''status_code'', s), (''deleted_at'', JStr t1)] clients) =
   assign_first clientId [(''status_code'', s), (''deleted_at'', JStr t2)] clients"
proof (induction clients)
  case Nil
  then show ?case by simp
next
  case (Cons c cs)
  show ?case
  proof (cases "matches_id clientId c")
    case True
    then obtain kvs where c: "c = JObj kvs"
      using matches_id_JObj by blast
    have "matches_id clientId (assign c [(''status_code'', s), (''deleted_at'', JStr t1)])"
      using True by (rule matches_id_assign) simp_all
    then show ?thesis
      using True by (simp add: c assign_twice)
  next
    case False
    then show ?thesis using Cons.IH by simp
  qed
qed

lemma delete_twice:
  "snd (delete_client_route t2 clientId (snd (delete_client_route t1 clientId clients))) =
   snd (delete_client_route t2 clientId clients)"
proof (cases "find_client clients clientId")
  case None
  then show ?thesis by (simp add: delete_not_found)
next
  case (Some c)
  have after: "find_client (assign_first clientId
        [(''status_code'', JStr ''deleted''), (''deleted_at'', JStr t1)] clients) clientId =
      Some (assign c [(''status_code'', JStr ''deleted''), (''deleted_at'', JStr t1)])"
    using Some by (rule find_assign_first) simp_all
  show ?thesis
    by (simp add: delete_found [OF Some] delete_found [OF after] assign_first_twice)
qed

text \<open>
  Claim C2, as stated, fails: a second soft delete at a later time changes the record, since
  \<open>deleted_at\<close> is written again with the time of the second call.
\<close>

theorem repeated_delete_changes_record:
  "snd (delete_client_route ''2024-12-16T10:00:00.000Z'' ''7''
         (snd (delete_client_route ''2024-12-15T09:15:30.000Z'' ''7''
            [JObj [(''id'', JStr ''7''), (''first_name'', JStr ''John'')]]))) \<noteq>
   snd (delete_client_route ''2024-12-15T09:15:30.000Z'' ''7''
          [JObj [(''id'', JStr ''7''), (''first_name'', JStr ''John'')]])"
  by (simp add: delete_client_route_def find_client_def matches_id_def assign_def)

text \<open>
  Claim C2, amended. A soft delete of a record that is already deleted answers 204 and
  leaves every property but \<open>deleted_at\<close> as it was, \<open>status_code\<close> included;
  \<open>deleted_at\<close> becomes the time of this call. Hence two deletes leave the store that
  the later one alone would leave.
\<close>

theorem repeated_delete_refreshes_deleted_at:
  "(find_client clients clientId = Some c \<and>
    get_prop c ''status_code'' = Some (JStr ''deleted'') \<longrightarrow>
      status (fst (delete_client_route t2 clientId clients)) = 204 \<and>
      (\<exists>c'. find_client (snd (delete_client_route t2 clientId clients)) clientId = Some c' \<and>
            get_prop c' ''deleted_at'' = Some (JStr t2) \<and>
            (\<forall>k. k \<noteq> ''deleted_at'' \<longrightarrow> get_prop c' k = get_prop c k))) \<and>
   snd (delete_client_route t2 clientId (snd (delete_client_route t1 clientId clients))) =
     snd (delete_client_route t2 clientId clients)"
proof (intro conjI impI)
  assume a: "find_client clients clientId = Some c \<and>
    get_prop c ''status_code'' = Some (JStr ''deleted'')"
  then have found: "find_client clients clientId = Some c" and
    deleted: "get_prop c ''status_code'' = Some (JStr ''deleted'')"
    by simp_all
  obtain kvs where c: "c = JObj kvs"
    using matches_id_JObj [OF find_client_matches [OF found]] by blast
  have after: "find_client (assign_first clientId
        [(''status_code'', JStr ''deleted''), (''deleted_at'', JStr t2)] clients) clientId =
      Some (assign c [(''status_code'', JStr ''deleted''), (''deleted_at'', JStr t2)])"
    using found by (rule find_assign_first) simp_all
  show "status (fst (delete_client_route t2 clientId clients)) = 204"
    by (simp add: delete_found [OF found])
  show "\<exists>c'. find_client (snd (delete_client_route t2 clientId clients)) clientId = Some c' \<and>
            get_prop c' ''deleted_at'' = Some (JStr t2) \<and>
            (\<forall>k. k \<noteq> ''deleted_at'' \<longrightarrow> get_prop c' k = get_prop c k)"
    using deleted unfolding delete_found [OF found] c
    by (simp add: after [unfolded c] get_prop_assign del: get_prop.simps)
next
  show "snd (delete_client_route t2 clientId (snd (delete_client_route t1 clientId clients))) =
     snd (delete_client_route t2 clientId clients)"
    by (rule delete_twice)
qed

theorem repeated_delete_refreshes_deleted_at_witness:
  "find_client
     [JObj [(''id'', JStr ''7''), (''status_code'', JStr ''deleted''),
            (''deleted_at'', JStr ''2024-12-15T09:15:30.000Z'')]] ''7'' =
   Some (JObj [(''id'', JStr ''7''), (''status_code'', JStr ''deleted''),
               (''deleted_at'', JStr ''2024-12-15T09:15:30.000Z'')]) \<and>
   status (fst (delete_client_route ''2024-12-16T10:00:00.000Z'' ''7''
     [JObj [(''id'', JStr ''7''), (''status_code'', JStr ''deleted''),
            (''deleted_at'', JStr ''2024-12-15T09:15:30.000Z'')]])) = 204 \<and>
   snd (delete_client_route ''2024-12-16T10:00:00.000Z'' ''7''
     [JObj [(''id'', JStr ''7''), (''status_code'', JStr ''deleted''),
            (''deleted_at'', JStr ''2024-12-15T09:15:30.000Z'')]]) =
     [JObj [(''id'', JStr ''7''), (''status_code'', JStr ''deleted''),
            (''deleted_at'', JStr ''2024-12-16T10:00:00.000Z'')]]"
  using repeated_delete_refreshes_deleted_at [of
      "[JObj [(''id'', JStr ''7''), (''status_code'', JStr ''deleted''),
              (''deleted_at'', JStr ''2024-12-15T09:15:30.000Z'')]]"
      "''7''"
      "JObj [(''id'', JStr ''7''), (''status_code'', JStr ''deleted''),
             (''deleted_at'', JStr ''2024-12-15T09:15:30.000Z'')]"
      "''2024-12-16T10:00:00.000Z''" "''2024-12-15T09:15:30.000Z''"]
  by (simp add: find_client_def matches_id_def delete_client_route_def assign_def)

section \<open>Properties of the form submission\<close>

lemma get_prop_create_data:
  "get_prop (submissionData False t1 t2 f) k =
     (if k = ''updated_at'' then Some (JStr t2)
      else if k = ''created_at'' then Some (JStr t1)
      else map_of (form_entries f) k)"
  by (simp add: submissionData_def get_prop_assign)

lemma get_prop_update_data:
  "get_prop (submissionData True t1 t2 f) k =
     (if k = ''updated_at'' then Some (JStr t1) else map_of (form_entries f) k)"
  by (simp add: submissionData_def assign_def update_conv')

lemma form_entries_no_stamp:
  "map_of (form_entries f) ''created_at'' = None"
  "map_of (form_entries f) ''created_by'' = None"
  "map_of (form_entries f) ''updated_at'' = None"
  by (simp_all add: form_entries_def)

lemma handleSubmit_create_world:
  "\<not> required_missing f \<Longrightarrow>
   snd (handleSubmit fetch False cid t1 t2 f w) =
     snd (fetch (createClient_request (submissionData False t1 t2 f)) w)"
  by (simp add: handleSubmit_def createClient_def split: prod.splits sum.splits)

lemma handleSubmit_update_world:
  "\<not> required_missing f \<Longrightarrow>
   snd (handleSubmit fetch True cid t1 t2 f w) =
     snd (fetch (updateClient_request cid (submissionData True t1 t2 f)) w)"
  by (simp add: handleSubmit_def updateClient_def split: prod.splits sum.splits)

lemma delete_keeps_other_props:
  assumes found: "find_client clients clientId = Some c"
  shows "\<exists>c'. find_client (snd (delete_client_route now clientId clients)) clientId = Some c' \<and>
     (\<forall>k. k \<noteq> ''status_code'' \<and> k \<noteq> ''deleted_at'' \<longrightarrow> get_prop c' k = get_prop c k)"
proof -
  obtain kvs where c: "c = JObj kvs"
    using matches_id_JObj [OF find_client_matches [OF found]] by blast
  have after: "find_client (assign_first clientId
        [(''status_code'', JStr ''deleted''), (''deleted_at'', JStr now)] clients) clientId =
      Some (assign c [(''status_code'', JStr ''deleted''), (''deleted_at'', JStr now)])"
    using found by (rule find_assign_first) simp_all
  show ?thesis
    unfolding delete_found [OF found] c
    by (simp add: after [unfolded c] get_prop_assign del: get_prop.simps)
qed

text \<open>
  Claim C3, as stated, fails: the soft delete is a successful mutation and leaves
  \<open>updated_at\<close> at its old value instead of the time of the delete.
\<close>

theorem soft_delete_keeps_updated_at:
  "find_client
     (snd (delete_client_route ''2024-12-16T10:00:00.000Z'' ''7''
        [JObj [(''id'', JStr ''7''), (''updated_at'', JStr ''2024-01-15T08:30:00.000Z'')]]))
     ''7'' =
   Some (JObj [(''id'', JStr ''7''), (''updated_at'', JStr ''2024-01-15T08:30:00.000Z''),
               (''status_code'', JStr ''deleted''),
               (''deleted_at'', JStr ''2024-12-16T10:00:00.000Z'')])"
  by (simp add: delete_client_route_def find_client_def matches_id_def assign_def)

text \<open>
  Claim C3, amended. A form whose required fields are filled is sent as one request,
  whose body carries, for a create, \<open>created_at\<close> and \<open>updated_at\<close> as readings of the
  clock at submission and, for an update, a fresh \<open>updated_at\<close> and no \<open>created_at\<close>;
  neither body carries \<open>created_by\<close>. The soft delete leaves \<open>updated_at\<close>,
  \<open>created_at\<close> and \<open>created_by\<close> of the record as they were.
\<close>

theorem timestamps_by_operation:
  "(\<not> required_missing f \<longrightarrow>
      snd (handleSubmit fetch False cid t1 t2 f w) =
        snd (fetch (createClient_request (submissionData False t1 t2 f)) w) \<and>
      snd (handleSubmit fetch True cid t1 t2 f w) =
        snd (fetch (updateClient_request cid (submissionData True t1 t2 f)) w)) \<and>
   get_prop (submissionData False t1 t2 f) ''created_at'' = Some (JStr t1) \<and>
   get_prop (submissionData False t1 t2 f) ''updated_at'' = Some (JStr t2) \<and>
   get_prop (submissionData False t1 t2 f) ''created_by'' = None \<and>
   get_prop (submissionData True t1 t2 f) ''updated_at'' = Some (JStr t1) \<and>
   get_prop (submissionData True t1 t2 f) ''created_at'' = None \<and>
   get_prop (submissionData True t1 t2 f) ''created_by'' = None \<and>
   (find_client clients clientId = Some c \<longrightarrow>
      (\<exists>c'. find_client (snd (delete_client_route now clientId clients)) clientId = Some c' \<and>
            get_prop c' ''updated_at'' = get_prop c ''updated_at'' \<and>
            get_prop c' ''created_at'' = get_prop c ''created_at'' \<and>
            get_prop c' ''created_by'' = get_prop c ''created_by''))"
proof -
  have sent: "\<not> required_missing f \<longrightarrow>
      snd (handleSubmit fetch False cid t1 t2 f w) =
        snd (fetch (createClient_request (submissionData False t1 t2 f)) w) \<and>
      snd (handleSubmit fetch True cid t1 t2 f w) =
        snd (fetch (updateClient_request cid (submissionData True t1 t2 f)) w)"
    using handleSubmit_create_world [of f fetch cid t1 t2 w]
      handleSubmit_update_world [of f fetch cid t1 t2 w]
    by blast
  have create: "get_prop (submissionData False t1 t2 f) ''created_at'' = Some (JStr t1)"
    "get_prop (submissionData False t1 t2 f) ''updated_at'' = Some (JStr t2)"
    "get_prop (submissionData False t1 t2 f) ''created_by'' = None"
    unfolding get_prop_create_data by (simp_all add: form_entries_no_stamp)
  have update: "get_prop (submissionData True t1 t2 f) ''updated_at'' = Some (JStr t1)"
    "get_prop (submissionData True t1 t2 f) ''created_at'' = None"
    "get_prop (submissionData True t1 t2 f) ''created_by'' = None"
    unfolding get_prop_update_data by (simp_all add: form_entries_no_stamp)
  have delete: "find_client clients clientId = Some c \<longrightarrow>
      (\<exists>c'. find_client (snd (delete_client_route now clientId clients)) clientId = Some c' \<and>
            get_prop c' ''updated_at'' = get_prop c ''updated_at'' \<and>
            get_prop c' ''created_at'' = get_prop c ''created_at'' \<and>
            get_prop c' ''created_by'' = get_prop c ''created_by'')"
  proof
    assume "find_client clients clientId = Some c"
    from delete_keeps_other_props [OF this, of now]
    obtain c' where c': "find_client (snd (delete_client_route now clientId clients)) clientId = Some c'"
      and frame: "\<forall>k. k \<noteq> ''status_code'' \<and> k \<noteq> ''deleted_at'' \<longrightarrow> get_prop c' k = get_prop c k"
      by blast
    have "get_prop c' ''updated_at'' = get_prop c ''updated_at''"
      "get_prop c' ''created_at'' = get_prop c ''created_at''"
      "get_prop c' ''created_by'' = get_prop c ''created_by''"
      using frame by simp_all
    with c' show "\<exists>c'. find_client (snd (delete_client_route now clientId clients)) clientId = Some c' \<and>
            get_prop c' ''updated_at'' = get_prop c ''updated_at'' \<and>
            get_prop c' ''created_at'' = get_prop c ''created_at'' \<and>
            get_prop c' ''created_by'' = get_prop c ''created_by''"
      by blast
  qed
  from sent create update delete show ?thesis by blast
qed

theorem timestamps_by_operation_witness:
  "\<not> required_missing john_doe \<and>
   snd (handleSubmit (router_create unreachable (JNum 1)) False [] ''2024-12-15T09:15:30.000Z''
          ''2024-12-15T09:15:30.000Z'' john_doe []) =
     snd (router_create unreachable (JNum 1)
            (createClient_request
               (submissionData False ''2024-12-15T09:15:30.000Z''
                  ''2024-12-15T09:15:30.000Z'' john_doe)) []) \<and>
   get_prop (submissionData False ''2024-12-15T09:15:30.000Z'' ''2024-12-15T09:15:30.000Z''
     john_doe) ''created_at'' = Some (JStr ''2024-12-15T09:15:30.000Z'') \<and>
   get_prop (submissionData True ''2024-12-15T09:15:30.000Z'' ''2024-12-15T09:15:30.000Z''
     john_doe) ''updated_at'' =
     Some (JStr ''2024-12-15T09:15:30.000Z'') \<and>
   find_client [JObj [(''id'', JStr ''7''), (''created_at'', JStr ''2024-01-15T08:30:00.000Z'')]]
     ''7'' =
     Some (JObj [(''id'', JStr ''7''), (''created_at'', JStr ''2024-01-15T08:30:00.000Z'')]) \<and>
   (\<exists>c'. find_client (snd (delete_client_route ''2024-12-16T10:00:00.000Z'' ''7''
            [JObj [(''id'', JStr ''7''), (''created_at'', JStr ''2024-01-15T08:30:00.000Z'')]]))
            ''7'' = Some c' \<and>
         get_prop c' ''created_at'' = Some (JStr ''2024-01-15T08:30:00.000Z''))"
proof -
  have filled: "\<not> required_missing john_doe"
    by (simp add: required_missing_def john_doe_def)
  have found: "find_client
      [JObj [(''id'', JStr ''7''), (''created_at'', JStr ''2024-01-15T08:30:00.000Z'')]] ''7'' =
      Some (JObj [(''id'', JStr ''7''), (''created_at'', JStr ''2024-01-15T08:30:00.000Z'')])"
    by (simp add: find_client_def matches_id_def)
  have before: "get_prop (JObj [(''id'', JStr ''7''), (''created_at'', JStr ''2024-01-15T08:30:00.000Z'')])
      ''created_at'' = Some (JStr ''2024-01-15T08:30:00.000Z'')"
    by simp
  note t = timestamps_by_operation [of john_doe "router_create unreachable (JNum 1)" "[]"
      "''2024-12-15T09:15:30.000Z''" "''2024-12-15T09:15:30.000Z''" "[]"
      "[JObj [(''id'', JStr ''7''), (''created_at'', JStr ''2024-01-15T08:30:00.000Z'')]]"
      "''7''"
      "JObj [(''id'', JStr ''7''), (''created_at'', JStr ''2024-01-15T08:30:00.000Z'')]"
      "''2024-12-16T10:00:00.000Z''"]
  from t filled found show ?thesis
    unfolding before by blast
qed

subsection \<open>A create through the mounted router\<close>

lemma run_create:
  "\<not> required_missing f \<Longrightarrow>
   handleSubmit (router_create other new_id) False cid t1 t2 f db =
     (Created (assign (submissionData False t1 t2 f) [(''id'', new_id)]),
      db @ [assign (submissionData False t1 t2 f) [(''id'', new_id)]])"
  by (simp add: handleSubmit_def createClient_def router_create_def createClient_request_def
      save_result_def ok_def submissionData_def assign_def Let_def)

lemma get_prop_created:
  "get_prop (assign (submissionData False t1 t2 f) [(''id'', new_id)]) k =
     (if k = ''id'' then Some new_id else get_prop (submissionData False t1 t2 f) k)"
  by (simp add: submissionData_def assign_def update_conv')

lemma john_doe_filled: "\<not> required_missing john_doe"
  by (simp add: required_missing_def john_doe_def)

lemma rejected_iff:
  "(fst (handleSubmit fetch isEditMode cid t1 t2 f w) = FormError required_message) =
     required_missing f"
  by (simp add: handleSubmit_def split: prod.splits sum.splits)

lemma rejected_sends_nothing:
  "required_missing f \<Longrightarrow>
   handleSubmit fetch isEditMode cid t1 t2 f w = (FormError required_message, w)"
  by (simp add: handleSubmit_def)

text \<open>
  Claim C1: evaluated on a record whose id is a number, as the mounted router gives to
  the records it creates. The record is in the store and the DELETE route is asked for
  its id, which arrives in the URL as the string of the number. The handler compares
  that string with the number, finds no record, answers 404 and leaves the record as it
  was, not deleted. The same happens to the record that a create through the form has
  just stored in an empty collection.
\<close>

theorem soft_delete_misses_numbered_record:
  "string_of_int 1 = ''1'' \<and>
   delete_client_route ''2024-12-16T10:00:00.000Z'' ''1''
     [JObj [(''id'', JNum 1), (''first_name'', JStr ''John''), (''status_code'', JStr ''active'')]] =
     (\<lparr>status = 404, x_total_count = None,
       body = Some (JObj [(''error'', JStr ''CLIENT_NOT_FOUND'')])\<rparr>,
      [JObj [(''id'', JNum 1), (''first_name'', JStr ''John''), (''status_code'', JStr ''active'')]]) \<and>
   map (\<lambda>c. get_prop c ''id'')
     (snd (handleSubmit (router_create unreachable (JNum 1)) False []
        ''2024-12-15T09:15:30.000Z'' ''2024-12-15T09:15:30.000Z'' john_doe [])) =
     [Some (JNum 1)] \<and>
   delete_client_route ''2024-12-16T10:00:00.000Z'' ''1''
     (snd (handleSubmit (router_create unreachable (JNum 1)) False []
        ''2024-12-15T09:15:30.000Z'' ''2024-12-15T09:15:30.000Z'' john_doe [])) =
     (\<lparr>status = 404, x_total_count = None,
       body = Some (JObj [(''error'', JStr ''CLIENT_NOT_FOUND'')])\<rparr>,
      snd (handleSubmit (router_create unreachable (JNum 1)) False []
        ''2024-12-15T09:15:30.000Z'' ''2024-12-15T09:15:30.000Z'' john_doe []))"
proof -
  have rendered: "string_of_int 1 = ''1''"
    by (simp add: string_of_int_def string_of_nat.simps digit_char_def)
  have stored: "delete_client_route ''2024-12-16T10:00:00.000Z'' ''1''
     [JObj [(''id'', JNum 1), (''first_name'', JStr ''John''), (''status_code'', JStr ''active'')]] =
     (\<lparr>status = 404, x_total_count = None,
       body = Some (JObj [(''error'', JStr ''CLIENT_NOT_FOUND'')])\<rparr>,
      [JObj [(''id'', JNum 1), (''first_name'', JStr ''John''), (''status_code'', JStr ''active'')]])"
    by (simp add: delete_client_route_def find_client_def matches_id_def)
  have ids: "map (\<lambda>c. get_prop c ''id'')
     (snd (handleSubmit (router_create unreachable (JNum 1)) False []
        ''2024-12-15T09:15:30.000Z'' ''2024-12-15T09:15:30.000Z'' john_doe [])) =
     [Some (JNum 1)]"
    by (simp add: run_create [OF john_doe_filled] get_prop_created del: get_prop.simps)
  have not_found: "find_client
     (snd (handleSubmit (router_create unreachable (JNum 1)) False []
        ''2024-12-15T09:15:30.000Z'' ''2024-12-15T09:15:30.000Z'' john_doe [])) ''1'' = None"
    by (simp add: run_create [OF john_doe_filled] find_client_def matches_id_def
        get_prop_created del: get_prop.simps)
  have created: "delete_client_route ''2024-12-16T10:00:00.000Z'' ''1''
     (snd (handleSubmit (router_create unreachable (JNum 1)) False []
        ''2024-12-15T09:15:30.000Z'' ''2024-12-15T09:15:30.000Z'' john_doe [])) =
     (\<lparr>status = 404, x_total_count = None,
       body = Some (JObj [(''error'', JStr ''CLIENT_NOT_FOUND'')])\<rparr>,
      snd (handleSubmit (router_create unreachable (JNum 1)) False []
        ''2024-12-15T09:15:30.000Z'' ''2024-12-15T09:15:30.000Z'' john_doe []))"
    using not_found by (simp add: delete_client_route_def)
  from rendered stored ids created show ?thesis
    by blast
qed

text \<open>
  Claim C4: evaluated where the clock ticks between the two readings of a create, the
  body that \<open>createClient\<close> sends, and with it the record stored and returned, has a
  \<open>created_at\<close> different from its \<open>updated_at\<close>.
\<close>

theorem create_reads_clock_twice:
  "req_body (createClient_request (submissionData False ''2024-12-15T09:15:30.999Z''
     ''2024-12-15T09:15:31.000Z'' john_doe)) =
   Some (JObj [(''first_name'', JStr ''John''), (''last_name'', JStr ''Doe''),
      (''date_of_birth'', JStr ''1990-03-15''), (''email'', JStr ''john.doe@example.com''),
      (''phone'', JStr []), (''status_code'', JStr ''active''),
      (''primary_language_code'', JStr []), (''pronoun_code'', JStr []), (''sex'', JStr []),
      (''interpreter_needed'', JBool False),
      (''created_at'', JStr ''2024-12-15T09:15:30.999Z''),
      (''updated_at'', JStr ''2024-12-15T09:15:31.000Z'')]) \<and>
   fst (handleSubmit (router_create unreachable (JNum 1)) False [] ''2024-12-15T09:15:30.999Z''
     ''2024-12-15T09:15:31.000Z'' john_doe []) =
   Created (JObj [(''first_name'', JStr ''John''), (''last_name'', JStr ''Doe''),
      (''date_of_birth'', JStr ''1990-03-15''), (''email'', JStr ''john.doe@example.com''),
      (''phone'', JStr []), (''status_code'', JStr ''active''),
      (''primary_language_code'', JStr []), (''pronoun_code'', JStr []), (''sex'', JStr []),
      (''interpreter_needed'', JBool False),
      (''created_at'', JStr ''2024-12-15T09:15:30.999Z''),
      (''updated_at'', JStr ''2024-12-15T09:15:31.000Z''), (''id'', JNum 1)])"
  by (simp add: run_create [OF john_doe_filled] createClient_request_def)
     (simp add: submissionData_def assign_def form_entries_def john_doe_def)

text \<open>
  Claim C5, as stated, fails: a create whose date of birth lies in the year 2999, sent in
  2024, passes the check of the form and is stored, and so does one whose date of birth
  is in 1800.
\<close>

theorem future_birth_date_is_stored:
  "\<not> required_missing (john_doe\<lparr>date_of_birth := JStr ''2999-01-01''\<rparr>) \<and>
   \<not> required_missing (john_doe\<lparr>date_of_birth := JStr ''1800-01-01''\<rparr>) \<and>
   map (\<lambda>c. get_prop c ''date_of_birth'')
     (snd (handleSubmit (router_create unreachable (JNum 1)) False [] ''2024-12-15T09:15:30.000Z''
        ''2024-12-15T09:15:30.000Z'' (john_doe\<lparr>date_of_birth := JStr ''2999-01-01''\<rparr>) [])) =
     [Some (JStr ''2999-01-01'')] \<and>
   map (\<lambda>c. get_prop c ''date_of_birth'')
     (snd (handleSubmit (router_create unreachable (JNum 1)) False [] ''2024-12-15T09:15:30.000Z''
        ''2024-12-15T09:15:30.000Z'' (john_doe\<lparr>date_of_birth := JStr ''1800-01-01''\<rparr>) [])) =
     [Some (JStr ''1800-01-01'')]"
proof -
  have filled: "\<not> required_missing (john_doe\<lparr>date_of_birth := JStr ''2999-01-01''\<rparr>)"
    "\<not> required_missing (john_doe\<lparr>date_of_birth := JStr ''1800-01-01''\<rparr>)"
    by (simp_all add: required_missing_def john_doe_def)
  then have "map (\<lambda>c. get_prop c ''date_of_birth'')
     (snd (handleSubmit (router_create unreachable (JNum 1)) False [] ''2024-12-15T09:15:30.000Z''
        ''2024-12-15T09:15:30.000Z'' (john_doe\<lparr>date_of_birth := JStr ''2999-01-01''\<rparr>) [])) =
     [Some (JStr ''2999-01-01'')]"
    "map (\<lambda>c. get_prop c ''date_of_birth'')
     (snd (handleSubmit (router_create unreachable (JNum 1)) False [] ''2024-12-15T09:15:30.000Z''
        ''2024-12-15T09:15:30.000Z'' (john_doe\<lparr>date_of_birth := JStr ''1800-01-01''\<rparr>) [])) =
     [Some (JStr ''1800-01-01'')]"
    by (simp_all add: run_create get_prop_created get_prop_create_data form_entries_def
        del: get_prop.simps)
  with filled show ?thesis
    by blast
qed

text \<open>
  Claim C5, amended. A create or update is rejected before anything is sent exactly when
  \<open>first_name\<close>, \<open>last_name\<close>, \<open>date_of_birth\<close> or \<open>status_code\<close> is empty. The value
  of a non-empty date of birth is not examined: with it, the other three fields alone
  decide, a create that passes is stored by the mounted router with the date of birth
  as entered, and an update that passes is sent with the date of birth as entered.
\<close>

theorem submit_rejects_only_missing_required:
  "(fst (handleSubmit fetch isEditMode cid t1 t2 f w) = FormError required_message) =
     required_missing f \<and>
   (required_missing f \<longrightarrow>
      handleSubmit fetch isEditMode cid t1 t2 f w = (FormError required_message, w)) \<and>
   (truthy d \<longrightarrow>
      required_missing (f\<lparr>date_of_birth := d\<rparr>) =
        (\<not> truthy (first_name f) \<or> \<not> truthy (last_name f) \<or> \<not> truthy (status_code f))) \<and>
   (\<not> required_missing f \<longrightarrow>
      (\<exists>r. handleSubmit (router_create other new_id) False cid t1 t2 f db = (Created r, db @ [r]) \<and>
           get_prop r ''date_of_birth'' = Some (date_of_birth f)) \<and>
      snd (handleSubmit fetch True cid t1 t2 f w) =
        snd (fetch (updateClient_request cid (submissionData True t1 t2 f)) w) \<and>
      get_prop (submissionData True t1 t2 f) ''date_of_birth'' = Some (date_of_birth f))"
proof (intro conjI impI)
  show "(fst (handleSubmit fetch isEditMode cid t1 t2 f w) = FormError required_message) =
     required_missing f"
    by (rule rejected_iff)
next
  assume "required_missing f"
  then show "handleSubmit fetch isEditMode cid t1 t2 f w = (FormError required_message, w)"
    by (rule rejected_sends_nothing)
next
  assume "truthy d"
  then show "required_missing (f\<lparr>date_of_birth := d\<rparr>) =
        (\<not> truthy (first_name f) \<or> \<not> truthy (last_name f) \<or> \<not> truthy (status_code f))"
    by (simp add: required_missing_def)
next
  assume filled: "\<not> required_missing f"
  have "get_prop (assign (submissionData False t1 t2 f) [(''id'', new_id)]) ''date_of_birth'' =
      Some (date_of_birth f)"
    by (simp add: get_prop_created get_prop_create_data form_entries_def del: get_prop.simps)
  with run_create [OF filled, of other new_id cid t1 t2 db]
  show "\<exists>r. handleSubmit (router_create other new_id) False cid t1 t2 f db = (Created r, db @ [r]) \<and>
           get_prop r ''date_of_birth'' = Some (date_of_birth f)"
    by blast
  show "snd (handleSubmit fetch True cid t1 t2 f w) =
        snd (fetch (updateClient_request cid (submissionData True t1 t2 f)) w)"
    using filled by (rule handleSubmit_update_world)
  show "get_prop (submissionData True t1 t2 f) ''date_of_birth'' = Some (date_of_birth f)"
    by (simp add: get_prop_update_data form_entries_def del: get_prop.simps)
qed

theorem submit_rejects_only_missing_required_witness:
  "required_missing initialFormState \<and>
   handleSubmit (router_create unreachable (JNum 1)) False [] ''2024-12-15T09:15:30.000Z''
     ''2024-12-15T09:15:30.000Z'' initialFormState [] = (FormError required_message, []) \<and>
   truthy (JStr ''2999-01-01'') \<and>
   \<not> required_missing (john_doe\<lparr>date_of_birth := JStr ''2999-01-01''\<rparr>) \<and>
   fst (handleSubmit (router_create unreachable (JNum 1)) False [] ''2024-12-15T09:15:30.000Z''
     ''2024-12-15T09:15:30.000Z'' (john_doe\<lparr>date_of_birth := JStr ''2999-01-01''\<rparr>) []) \<noteq>
     FormError required_message"
proof -
  have missing: "required_missing initialFormState"
    by (simp add: required_missing_def initialFormState_def)
  have future: "truthy (JStr ''2999-01-01'')"
    by simp
  have filled: "\<not> required_missing (john_doe\<lparr>date_of_birth := JStr ''2999-01-01''\<rparr>)"
    by (simp add: required_missing_def john_doe_def)
  from missing
    submit_rejects_only_missing_required [of "router_create unreachable (JNum 1)" False "[]"
      "''2024-12-15T09:15:30.000Z''" "''2024-12-15T09:15:30.000Z''" initialFormState "[]"]
  have rejected: "handleSubmit (router_create unreachable (JNum 1)) False [] ''2024-12-15T09:15:30.000Z''
     ''2024-12-15T09:15:30.000Z'' initialFormState [] = (FormError required_message, [])"
    by blast
  from filled
    submit_rejects_only_missing_required [of "router_create unreachable (JNum 1)" False "[]"
      "''2024-12-15T09:15:30.000Z''" "''2024-12-15T09:15:30.000Z''"
      "john_doe\<lparr>date_of_birth := JStr ''2999-01-01''\<rparr>" "[]"]
  have sent: "fst (handleSubmit (router_create unreachable (JNum 1)) False [] ''2024-12-15T09:15:30.000Z''
     ''2024-12-15T09:15:30.000Z'' (john_doe\<lparr>date_of_birth := JStr ''2999-01-01''\<rparr>) []) \<noteq>
     FormError required_message"
    by blast
  from missing rejected future filled sent show ?thesis
    by blast
qed

text \<open>
  Claim C6, as stated, fails: a second create with the email of the first passes the
  check of the form and is answered like the first, and the store then holds two
  records with that email.
\<close>

theorem duplicate_email_is_stored:
  "\<not> required_missing john_doe \<and>
   fst (handleSubmit (router_create unreachable (JNum 2)) False [] ''2024-12-15T09:20:00.000Z''
     ''2024-12-15T09:20:00.000Z'' john_doe
     (snd (handleSubmit (router_create unreachable (JNum 1)) False [] ''2024-12-15T09:15:30.000Z''
        ''2024-12-15T09:15:30.000Z'' john_doe []))) =
   Created (assign (submissionData False ''2024-12-15T09:20:00.000Z''
     ''2024-12-15T09:20:00.000Z'' john_doe) [(''id'', JNum 2)]) \<and>
   map (\<lambda>c. (get_prop c ''id'', get_prop c ''email''))
     (snd (handleSubmit (router_create unreachable (JNum 2)) False [] ''2024-12-15T09:20:00.000Z''
        ''2024-12-15T09:20:00.000Z'' john_doe
        (snd (handleSubmit (router_create unreachable (JNum 1)) False [] ''2024-12-15T09:15:30.000Z''
           ''2024-12-15T09:15:30.000Z'' john_doe [])))) =
     [(Some (JNum 1), Some (JStr ''john.doe@example.com'')),
      (Some (JNum 2), Some (JStr ''john.doe@example.com''))]"
  by (simp add: run_create [OF john_doe_filled] get_prop_created get_prop_create_data
      john_doe_filled del: get_prop.simps)
     (simp add: form_entries_def john_doe_def)

text \<open>
  Claim C6, amended. The email plays no part in the check of the form. A create whose
  required fields are filled is stored by the mounted router and answered with the new
  record, whatever records the store already holds, so a second create with the same
  email adds a second record with that email. An update whose required fields are
  filled is sent with the email as entered; nothing compares it with another record.
\<close>

theorem email_is_never_compared:
  "required_missing (f\<lparr>email := e\<rparr>) = required_missing f \<and>
   (\<not> required_missing f \<longrightarrow>
      (\<exists>r. handleSubmit (router_create other new_id) False cid t1 t2 f db = (Created r, db @ [r]) \<and>
           get_prop r ''email'' = Some (email f)) \<and>
      snd (handleSubmit fetch True cid t1 t2 f w) =
        snd (fetch (updateClient_request cid (submissionData True t1 t2 f)) w) \<and>
      get_prop (submissionData True t1 t2 f) ''email'' = Some (email f))"
proof (intro conjI impI)
  show "required_missing (f\<lparr>email := e\<rparr>) = required_missing f"
    by (simp add: required_missing_def)
next
  assume filled: "\<not> required_missing f"
  have "get_prop (assign (submissionData False t1 t2 f) [(''id'', new_id)]) ''email'' =
      Some (email f)"
    by (simp add: get_prop_created get_prop_create_data form_entries_def del: get_prop.simps)
  with run_create [OF filled, of other new_id cid t1 t2 db]
  show "\<exists>r. handleSubmit (router_create other new_id) False cid t1 t2 f db = (Created r, db @ [r]) \<and>
           get_prop r ''email'' = Some (email f)"
    by blast
  show "snd (handleSubmit fetch True cid t1 t2 f w) =
        snd (fetch (updateClient_request cid (submissionData True t1 t2 f)) w)"
    using filled by (rule handleSubmit_update_world)
  show "get_prop (submissionData True t1 t2 f) ''email'' = Some (email f)"
    by (simp add: get_prop_update_data form_entries_def del: get_prop.simps)
qed

theorem email_is_never_compared_witness:
  "\<not> required_missing john_doe \<and>
   get_prop (JObj [(''id'', JNum 1), (''email'', JStr ''john.doe@example.com'')]) ''email'' =
     Some (email john_doe) \<and>
   (\<exists>r. handleSubmit (router_create unreachable (JNum 2)) False [] ''2024-12-15T09:20:00.000Z''
          ''2024-12-15T09:20:00.000Z'' john_doe
          [JObj [(''id'', JNum 1), (''email'', JStr ''john.doe@example.com'')]] =
        (Created r, [JObj [(''id'', JNum 1), (''email'', JStr ''john.doe@example.com'')], r]) \<and>
        get_prop r ''email'' = Some (JStr ''john.doe@example.com''))"
proof -
  have filled: "\<not> required_missing john_doe"
    by (simp add: required_missing_def john_doe_def)
  have stored: "get_prop (JObj [(''id'', JNum 1), (''email'', JStr ''john.doe@example.com'')])
      ''email'' = Some (email john_doe)"
    by (simp add: john_doe_def)
  have entered: "email john_doe = JStr ''john.doe@example.com''"
    by (simp add: john_doe_def)
  from filled
    email_is_never_compared [where f = john_doe and other = unreachable
      and new_id = "JNum 2" and cid = "[]"
      and ?t1.0 = "''2024-12-15T09:20:00.000Z''" and ?t2.0 = "''2024-12-15T09:20:00.000Z''"
      and db = "[JObj [(''id'', JNum 1), (''email'', JStr ''john.doe@example.com'')]]"
      and e = JNull and fetch = unreachable and w = "[]"]
  have "\<exists>r. handleSubmit (router_create unreachable (JNum 2)) False [] ''2024-12-15T09:20:00.000Z''
          ''2024-12-15T09:20:00.000Z'' john_doe
          [JObj [(''id'', JNum 1), (''email'', JStr ''john.doe@example.com'')]] =
        (Created r, [JObj [(''id'', JNum 1), (''email'', JStr ''john.doe@example.com'')]] @ [r]) \<and>
        get_prop r ''email'' = Some (email john_doe)"
    by blast
  then have "\<exists>r. handleSubmit (router_create unreachable (JNum 2)) False [] ''2024-12-15T09:20:00.000Z''
          ''2024-12-15T09:20:00.000Z'' john_doe
          [JObj [(''id'', JNum 1), (''email'', JStr ''john.doe@example.com'')]] =
        (Created r, [JObj [(''id'', JNum 1), (''email'', JStr ''john.doe@example.com'')], r]) \<and>
        get_prop r ''email'' = Some (JStr ''john.doe@example.com'')"
    unfolding entered by simp
  with filled stored show ?thesis
    by blast
qed

text \<open>
  Claim C7, as stated, fails: a create with all four required fields empty and a create
  with only the status empty get the same single message, which does not say which
  fields failed.
\<close>

theorem missing_fields_share_one_message:
  "fst (handleSubmit (router_create unreachable (JNum 1)) False [] ''2024-12-15T09:15:30.000Z''
     ''2024-12-15T09:15:30.000Z'' initialFormState []) =
     FormError ''Required fields are missing (First Name, Last Name, DOB, Status).'' \<and>
   fst (handleSubmit (router_create unreachable (JNum 1)) False [] ''2024-12-15T09:15:30.000Z''
     ''2024-12-15T09:15:30.000Z'' (john_doe\<lparr>status_code := JStr []\<rparr>) []) =
     FormError ''Required fields are missing (First Name, Last Name, DOB, Status).''"
  by (simp add: handleSubmit_def required_missing_def initialFormState_def john_doe_def
      required_message_def)

text \<open>
  Claim C7, amended. Whenever one or more of the required fields of a create or update
  input is empty, \<open>handleSubmit\<close> reports one fixed message and sends nothing; the
  message is the same whichever fields, and however many, are empty.
\<close>

theorem validation_error_is_one_message:
  "(required_missing f \<longrightarrow>
      handleSubmit fetch isEditMode cid t1 t2 f w =
        (FormError ''Required fields are missing (First Name, Last Name, DOB, Status).'', w)) \<and>
   (required_missing f \<and> required_missing g \<longrightarrow>
      fst (handleSubmit fetch isEditMode cid t1 t2 f w) =
      fst (handleSubmit fetch isEditMode cid t1 t2 g w))"
  by (simp add: rejected_sends_nothing required_message_def)

theorem validation_error_is_one_message_witness:
  "required_missing initialFormState \<and>
   required_missing (john_doe\<lparr>status_code := JStr []\<rparr>) \<and>
   handleSubmit (router_create unreachable (JNum 1)) False [] ''2024-12-15T09:15:30.000Z''
     ''2024-12-15T09:15:30.000Z'' initialFormState [] =
     (FormError ''Required fields are missing (First Name, Last Name, DOB, Status).'', []) \<and>
   fst (handleSubmit (router_create unreachable (JNum 1)) False [] ''2024-12-15T09:15:30.000Z''
     ''2024-12-15T09:15:30.000Z'' initialFormState []) =
   fst (handleSubmit (router_create unreachable (JNum 1)) False [] ''2024-12-15T09:15:30.000Z''
     ''2024-12-15T09:15:30.000Z'' (john_doe\<lparr>status_code := JStr []\<rparr>) [])"
proof -
  have all_empty: "required_missing initialFormState"
    by (simp add: required_missing_def initialFormState_def)
  have one_empty: "required_missing (john_doe\<lparr>status_code := JStr []\<rparr>)"
    by (simp add: required_missing_def)
  from all_empty one_empty
    validation_error_is_one_message [of initialFormState "router_create unreachable (JNum 1)" False "[]"
      "''2024-12-15T09:15:30.000Z''" "''2024-12-15T09:15:30.000Z''" "[]"
      "john_doe\<lparr>status_code := JStr []\<rparr>"]
  show ?thesis
    by blast
qed

section \<open>Properties of the list request\<close>

lemma string_of_small_numbers:
  "string_of_int 0 = ''0''" "string_of_int 1 = ''1''" "string_of_int 2 = ''2''"
  by (simp_all add: string_of_int_def string_of_nat.simps digit_char_def)

lemma string_of_500: "string_of_int 500 = ''500''"
  by (simp add: string_of_int_def string_of_nat.simps [of 500] string_of_nat.simps [of 50]
      string_of_nat.simps [of 5] digit_char_def)

lemma getClients_data:
  assumes "fetch (getClients_request params) w = (Resolves r, w')"
    and "ok r" and "body r = Some (JArr xs)"
  shows "data (fst (getClients fetch params w)) = JArr xs"
  using assms by (simp add: getClients_def split: option.splits)

text \<open>
  Claim C8, as stated, fails: \<open>getClients\<close> sends no limit when it is given none, sends a
  limit of 0 or of 500 as it is, and the list page asks for pages of 2.
\<close>

theorem list_limit_is_sent_as_given:
  "req_query (getClients_request []) = [] \<and>
   req_query (getClients_request [(''limit'', PNum 0)]) = [(''limit'', ''0'')] \<and>
   req_query (getClients_request [(''limit'', PNum 500)]) = [(''limit'', ''500'')] \<and>
   req_query (getClients_request (list_params 1 [])) = [(''_page'', ''1''), (''_limit'', ''2'')]"
  by (simp add: getClients_request_def URLSearchParams_def list_params_def ITEMS_PER_PAGE_def
      string_of_small_numbers string_of_500)

text \<open>
  Claim C8, amended. Every list request of the list page asks for pages of
  \<open>ITEMS_PER_PAGE = 2\<close>. \<open>getClients\<close> sends the parameters it is given, each as its
  string, adding no default limit and clamping none, and returns every record of an OK
  response, however many there are.
\<close>

theorem list_request_limit:
  "map_of (req_query (getClients_request (list_params currentPage statusFilter))) ''_limit'' =
     Some ''2'' \<and>
   snd (fetchClientData fetch currentPage statusFilter w) =
     snd (fetch (getClients_request (list_params currentPage statusFilter)) w) \<and>
   req_query (getClients_request params) = map (\<lambda>(k, v). (k, param_string v)) params \<and>
   (fetch (getClients_request params) w = (Resolves r, w') \<and> ok r \<and> body r = Some (JArr xs) \<longrightarrow>
      data (fst (getClients fetch params w)) = JArr xs)"
proof (intro conjI impI)
  show "map_of (req_query (getClients_request (list_params currentPage statusFilter))) ''_limit'' =
     Some ''2''"
    by (simp add: getClients_request_def URLSearchParams_def list_params_def ITEMS_PER_PAGE_def
        string_of_small_numbers)
  show "snd (fetchClientData fetch currentPage statusFilter w) =
     snd (fetch (getClients_request (list_params currentPage statusFilter)) w)"
    by (simp add: fetchClientData_def getClients_def
        split: prod.splits fetch_result.splits option.splits sum.splits)
  show "req_query (getClients_request params) = map (\<lambda>(k, v). (k, param_string v)) params"
    by (simp add: getClients_request_def URLSearchParams_def)
next
  assume "fetch (getClients_request params) w = (Resolves r, w') \<and> ok r \<and>
    body r = Some (JArr xs)"
  then show "data (fst (getClients fetch params w)) = JArr xs"
    using getClients_data [of fetch params w r w' xs] by blast
qed

theorem list_request_limit_witness:
  "ok \<lparr>status = 200, x_total_count = Some ''3'',
       body = Some (JArr [JStr ''a'', JStr ''b'', JStr ''c''])\<rparr> \<and>
   data (fst (getClients
     (\<lambda>req w. (Resolves \<lparr>status = 200, x_total_count = Some ''3'',
                          body = Some (JArr [JStr ''a'', JStr ''b'', JStr ''c''])\<rparr>, w))
     [] ())) = JArr [JStr ''a'', JStr ''b'', JStr ''c'']"
proof -
  have is_ok: "ok \<lparr>status = 200, x_total_count = Some ''3'',
       body = Some (JArr [JStr ''a'', JStr ''b'', JStr ''c''])\<rparr>"
    by (simp add: ok_def)
  from is_ok
    list_request_limit [where params = "[]" and w = "()" and w' = "()"
      and r = "\<lparr>status = 200, x_total_count = Some ''3'',
                 body = Some (JArr [JStr ''a'', JStr ''b'', JStr ''c''])\<rparr>"
      and xs = "[JStr ''a'', JStr ''b'', JStr ''c'']"
      and fetch = "\<lambda>req w. (Resolves \<lparr>status = 200, x_total_count = Some ''3'',
                          body = Some (JArr [JStr ''a'', JStr ''b'', JStr ''c''])\<rparr>, w)"]
  show ?thesis
    by simp
qed

section \<open>Properties of the failure paths of api.js\<close>

lemma getClients_failure_is_empty_page:
  "fetch (getClients_request params) w = (Rejects, w') \<Longrightarrow>
     getClients fetch params w = (empty_page, w')"
  "fetch (getClients_request params) w = (Resolves r, w') \<Longrightarrow> \<not> ok r \<Longrightarrow>
     getClients fetch params w = (empty_page, w')"
  "fetch (getClients_request params) w = (Resolves r, w') \<Longrightarrow> body r = None \<Longrightarrow>
     getClients fetch params w = (empty_page, w')"
  by (simp_all add: getClients_def)

lemma fetchClientData_error_never_set:
  "list_error (fst (fetchClientData fetch currentPage statusFilter w)) = None"
  by (simp add: fetchClientData_def split: prod.splits)

lemma getReferenceData_cases:
  "fetch getReferenceData_request w = (Rejects, w') \<Longrightarrow>
     getReferenceData fetch w = (JNull, w')"
  "fetch getReferenceData_request w = (Resolves r, w') \<Longrightarrow> \<not> ok r \<Longrightarrow>
     getReferenceData fetch w = (JNull, w')"
  "fetch getReferenceData_request w = (Resolves r, w') \<Longrightarrow> body r = None \<Longrightarrow>
     getReferenceData fetch w = (JNull, w')"
  "fetch getReferenceData_request w = (Resolves r, w') \<Longrightarrow> ok r \<Longrightarrow> body r = Some j \<Longrightarrow>
     getReferenceData fetch w = (j, w')"
  by (simp_all add: getReferenceData_def)

text \<open>
  Claim C9, as stated, fails: when the server cannot be reached, and when it answers 500,
  \<open>getReferenceData\<close> returns \<open>null\<close> and \<open>getClients\<close> returns the empty page, which is
  also what it returns for an OK response with no clients.
\<close>

theorem failures_are_not_raised:
  "getReferenceData (\<lambda>req w. (Rejects, w)) () = (JNull, ()) \<and>
   getReferenceData
     (\<lambda>req w. (Resolves \<lparr>status = 500, x_total_count = None, body = Some (JObj [])\<rparr>, w)) () =
     (JNull, ()) \<and>
   getClients (\<lambda>req w. (Rejects, w)) [] () =
     (\<lparr>data = JArr [], totalCount = Some (JNum 0)\<rparr>, ()) \<and>
   getClients
     (\<lambda>req w. (Resolves \<lparr>status = 500, x_total_count = None, body = Some (JObj [])\<rparr>, w))
     [] () = (\<lparr>data = JArr [], totalCount = Some (JNum 0)\<rparr>, ()) \<and>
   getClients
     (\<lambda>req w. (Resolves \<lparr>status = 200, x_total_count = None, body = Some (JArr [])\<rparr>, w))
     [] () = (\<lparr>data = JArr [], totalCount = Some (JNum 0)\<rparr>, ())"
  by (simp add: getReferenceData_def getClients_def ok_def empty_page_def parseInt10_def
      is_js_space_def is_digit_def)

text \<open>
  Claim C9, amended. Every failure of the reference-data operation (the fetch rejects,
  the response is not OK, or its body is not JSON) is caught and given to the caller as
  \<open>null\<close>, not raised; an OK response gives its body. The world is left as the one
  request leaves it.
\<close>

theorem reference_data_failure_is_null:
  "(fetch getReferenceData_request w = (Rejects, w') \<longrightarrow>
      getReferenceData fetch w = (JNull, w')) \<and>
   (fetch getReferenceData_request w = (Resolves r, w') \<and> (\<not> ok r \<or> body r = None) \<longrightarrow>
      getReferenceData fetch w = (JNull, w')) \<and>
   (fetch getReferenceData_request w = (Resolves r, w') \<and> ok r \<and> body r = Some j \<longrightarrow>
      getReferenceData fetch w = (j, w')) \<and>
   snd (getReferenceData fetch w) = snd (fetch getReferenceData_request w)"
proof (intro conjI impI)
  assume "fetch getReferenceData_request w = (Rejects, w')"
  then show "getReferenceData fetch w = (JNull, w')"
    by (rule getReferenceData_cases)
next
  assume "fetch getReferenceData_request w = (Resolves r, w') \<and> (\<not> ok r \<or> body r = None)"
  then show "getReferenceData fetch w = (JNull, w')"
    using getReferenceData_cases(2,3) [of fetch w r w'] by blast
next
  assume "fetch getReferenceData_request w = (Resolves r, w') \<and> ok r \<and> body r = Some j"
  then show "getReferenceData fetch w = (j, w')"
    using getReferenceData_cases(4) [of fetch w r w' j] by blast
next
  show "snd (getReferenceData fetch w) = snd (fetch getReferenceData_request w)"
    by (simp add: getReferenceData_def split: prod.splits fetch_result.splits option.splits)
qed

theorem reference_data_failure_is_null_witness:
  "\<not> ok \<lparr>status = 500, x_total_count = None, body = Some (JObj [])\<rparr> \<and>
   getReferenceData
     (\<lambda>req w. (Resolves \<lparr>status = 500, x_total_count = None, body = Some (JObj [])\<rparr>, w)) () =
     (JNull, ()) \<and>
   getReferenceData (\<lambda>req w. (Rejects, w)) () = (JNull, ())"
proof -
  have not_ok: "\<not> ok \<lparr>status = 500, x_total_count = None, body = Some (JObj [])\<rparr>"
    by (simp add: ok_def)
  from not_ok
    reference_data_failure_is_null [where w = "()" and w' = "()"
      and r = "\<lparr>status = 500, x_total_count = None, body = Some (JObj [])\<rparr>"
      and fetch = "\<lambda>req w. (Resolves \<lparr>status = 500, x_total_count = None,
                                        body = Some (JObj [])\<rparr>, w)"]
    reference_data_failure_is_null [where w = "()" and w' = "()"
      and fetch = "\<lambda>req w. (Rejects, w)"]
  show ?thesis
    by simp
qed

section \<open>Properties of the display-name lookup\<close>

lemma find_code_total:
  "JNull \<notin> set items \<Longrightarrow> \<exists>r. find_code code items = Inr r"
  by (induction items) auto

lemma find_code_no_match:
  "JNull \<notin> set items \<Longrightarrow> \<forall>i \<in> set items. \<not> strict_eq (get_prop i ''code'') code \<Longrightarrow>
   find_code code items = Inr None"
  by (induction items) auto

lemma getDisplayName_array:
  "get_prop referenceData (kind_key kind) = Some (JArr items) \<Longrightarrow>
   getDisplayName referenceData kind code =
     (case find_code code items of
        Inl e \<Rightarrow> Inl e
      | Inr None \<Rightarrow> Inr code
      | Inr (Some item) \<Rightarrow>
          if truthy item then
            (case get_prop item ''name'' of
               None \<Rightarrow> Inr (get_prop item ''display_text'')
             | Some n \<Rightarrow> if truthy n then Inr (Some n) else Inr (get_prop item ''display_text''))
          else Inr code)"
  by (cases referenceData) (simp_all add: getDisplayName_def)

text \<open>
  Claim C10. The lookup returns the code itself when the reference data is absent
  (\<open>null\<close>), when it has no catalog of the kind or a \<open>null\<close> one, and when the
  catalog of the kind, an array of entries, has no entry with that code. On every catalog that is an array of
  entries (none of them \<open>null\<close>) the lookup returns a value and does not throw.
\<close>

theorem getDisplayName_falls_back_to_code:
  "(\<not> truthy referenceData \<longrightarrow> getDisplayName referenceData kind code = Inr code) \<and>
   (get_prop referenceData (kind_key kind) = None \<longrightarrow>
      getDisplayName referenceData kind code = Inr code) \<and>
   (get_prop referenceData (kind_key kind) = Some catalog \<and> \<not> truthy catalog \<longrightarrow>
      getDisplayName referenceData kind code = Inr code) \<and>
   (get_prop referenceData (kind_key kind) = Some (JArr items) \<and> JNull \<notin> set items \<and>
    (\<forall>i \<in> set items. \<not> strict_eq (get_prop i ''code'') code) \<longrightarrow>
      getDisplayName referenceData kind code = Inr code) \<and>
   (get_prop referenceData (kind_key kind) = Some (JArr items) \<and> JNull \<notin> set items \<longrightarrow>
      (\<exists>v. getDisplayName referenceData kind code = Inr v))"
proof (intro conjI impI)
  assume "\<not> truthy referenceData"
  then show "getDisplayName referenceData kind code = Inr code"
    by (simp add: getDisplayName_def)
next
  assume "get_prop referenceData (kind_key kind) = None"
  then show "getDisplayName referenceData kind code = Inr code"
    by (simp add: getDisplayName_def)
next
  assume "get_prop referenceData (kind_key kind) = Some catalog \<and> \<not> truthy catalog"
  then show "getDisplayName referenceData kind code = Inr code"
    by (simp add: getDisplayName_def)
next
  assume a: "get_prop referenceData (kind_key kind) = Some (JArr items) \<and> JNull \<notin> set items \<and>
    (\<forall>i \<in> set items. \<not> strict_eq (get_prop i ''code'') code)"
  then have "find_code code items = Inr None"
    using find_code_no_match [of items code] by blast
  with a show "getDisplayName referenceData kind code = Inr code"
    by (simp add: getDisplayName_array)
next
  assume a: "get_prop referenceData (kind_key kind) = Some (JArr items) \<and> JNull \<notin> set items"
  then obtain r where "find_code code items = Inr r"
    using find_code_total [of items code] by blast
  with a show "\<exists>v. getDisplayName referenceData kind code = Inr v"
    by (simp add: getDisplayName_array split: option.splits)
qed

theorem getDisplayName_falls_back_to_code_witness:
  "\<not> truthy JNull \<and>
   getDisplayName JNull ClientStatuses (Some (JStr ''deleted'')) = Inr (Some (JStr ''deleted'')) \<and>
   get_prop
     (JObj [(''client_statuses'',
        JArr [JObj [(''code'', JStr ''active''), (''name'', JStr ''Active'')],
              JObj [(''code'', JStr ''inactive''), (''name'', JStr ''Inactive'')]])])
     (kind_key ClientStatuses) =
     Some (JArr [JObj [(''code'', JStr ''active''), (''name'', JStr ''Active'')],
                 JObj [(''code'', JStr ''inactive''), (''name'', JStr ''Inactive'')]]) \<and>
   getDisplayName
     (JObj [(''client_statuses'',
        JArr [JObj [(''code'', JStr ''active''), (''name'', JStr ''Active'')],
              JObj [(''code'', JStr ''inactive''), (''name'', JStr ''Inactive'')]])])
     ClientStatuses (Some (JStr ''deleted'')) = Inr (Some (JStr ''deleted'')) \<and>
   getDisplayName
     (JObj [(''client_statuses'',
        JArr [JObj [(''code'', JStr ''active''), (''name'', JStr ''Active'')],
              JObj [(''code'', JStr ''inactive''), (''name'', JStr ''Inactive'')]])])
     Languages (Some (JStr ''en-NZ'')) = Inr (Some (JStr ''en-NZ''))"
proof -
  let ?rd = "JObj [(''client_statuses'',
        JArr [JObj [(''code'', JStr ''active''), (''name'', JStr ''Active'')],
              JObj [(''code'', JStr ''inactive''), (''name'', JStr ''Inactive'')]])]"
  let ?items = "[JObj [(''code'', JStr ''active''), (''name'', JStr ''Active'')],
              JObj [(''code'', JStr ''inactive''), (''name'', JStr ''Inactive'')]]"
  have absent: "\<not> truthy JNull"
    by simp
  have catalog: "get_prop ?rd (kind_key ClientStatuses) = Some (JArr ?items)"
    by simp
  have no_kind: "get_prop ?rd (kind_key Languages) = None"
    by simp
  have entries: "JNull \<notin> set ?items"
    by simp
  have no_match: "\<forall>i \<in> set ?items. \<not> strict_eq (get_prop i ''code'') (Some (JStr ''deleted''))"
    by simp
  from absent
    getDisplayName_falls_back_to_code [where referenceData = JNull and kind = ClientStatuses
      and code = "Some (JStr ''deleted'')"]
  have 1: "getDisplayName JNull ClientStatuses (Some (JStr ''deleted'')) =
      Inr (Some (JStr ''deleted''))"
    by blast
  from catalog entries no_match
    getDisplayName_falls_back_to_code [where referenceData = ?rd and kind = ClientStatuses
      and code = "Some (JStr ''deleted'')" and items = ?items]
  have 2: "getDisplayName ?rd ClientStatuses (Some (JStr ''deleted'')) =
      Inr (Some (JStr ''deleted''))"
    by blast
  from no_kind
    getDisplayName_falls_back_to_code [where referenceData = ?rd and kind = Languages
      and code = "Some (JStr ''en-NZ'')"]
  have 3: "getDisplayName ?rd Languages (Some (JStr ''en-NZ'')) = Inr (Some (JStr ''en-NZ''))"
    by blast
  from absent 1 catalog 2 3 show ?thesis
    by blast
qed

end
